theory Spec2Isabelle
  imports Complex_Main "HOL-Library.Word" "HOL-Library.Multiset" "HOL-Library.Product_Lexorder"
begin

section \<open>The 2D computational geometry library (comp\_geom\_2D.cxx)\<close>

text \<open>
  The library is a set of function templates over a coordinate type \<open>T\<close>. The embedding
  instantiates \<open>T\<close> with the C++ type \<open>int\<close>: a coordinate is an integer, equality of
  points is exact (the \<open>else\<close> branch of \<open>operator==\<close>), and
  \<open>std::numeric_limits<T>::max()\<close> is \<open>2147483647\<close>. Values of type \<open>long double\<close>
  are real numbers. Coordinate arithmetic is the mathematical one: the definitions describe
  the runs of the code in which no \<open>int\<close> operation overflows (C++ leaves the others
  undefined) and in which the accumulator holds its values exactly. What the machine does
  with the coordinate differences of \<open>orientation\<close> beyond that range is the subject of a
  section of its own, on 32-bit words.
\<close>

subsection \<open>Point\<close>

datatype point = Point (px: int) (py: int)

definition EPS :: real where
  "EPS = 1 / 10 ^ 9"

definition T_max :: int where
  "T_max = 2147483647"

text \<open>\<open>operator<\<close>: lexicographic, x first.\<close>

definition point_less :: "point \<Rightarrow> point \<Rightarrow> bool" where
  "point_less a b = (if px a \<noteq> px b then px a < px b else py a < py b)"

text \<open>
  \<open>std::sort(begin, end)\<close> orders by \<open>operator<\<close>. The order is total on points and two
  points that are equivalent under it are equal, so the sorted vector is determined.
\<close>

definition sortPoints :: "point list \<Rightarrow> point list" where
  "sortPoints ps = sort_key (\<lambda>p. (px p, py p)) ps"

subsection \<open>Predicates\<close>

definition orientation_val :: "point \<Rightarrow> point \<Rightarrow> point \<Rightarrow> real" where
  "orientation_val p q r =
     real_of_int (py q - py p) * real_of_int (px r - px q)
   - real_of_int (px q - px p) * real_of_int (py r - py q)"

text \<open>0: collinear, 1: clockwise, 2: counter-clockwise.\<close>

definition orientation :: "point \<Rightarrow> point \<Rightarrow> point \<Rightarrow> int" where
  "orientation p q r =
     (let val = orientation_val p q r
      in if \<bar>val\<bar> < EPS then 0 else if val > 0 then 1 else 2)"

definition onSegment :: "point \<Rightarrow> point \<Rightarrow> point \<Rightarrow> bool" where
  "onSegment p q r =
     (px q \<le> max (px p) (px r) \<and> px q \<ge> min (px p) (px r) \<and>
      py q \<le> max (py p) (py r) \<and> py q \<ge> min (py p) (py r))"

definition doIntersect :: "point \<Rightarrow> point \<Rightarrow> point \<Rightarrow> point \<Rightarrow> bool" where
  "doIntersect p1 q1 p2 q2 =
     (let o1 = orientation p1 q1 p2;
          o2 = orientation p1 q1 q2;
          o3 = orientation p2 q2 p1;
          o4 = orientation p2 q2 q1
      in if o1 \<noteq> 0 \<and> o2 \<noteq> 0 \<and> o3 \<noteq> 0 \<and> o4 \<noteq> 0 \<and> o1 \<noteq> o2 \<and> o3 \<noteq> o4 then True
         else if o1 = 0 \<and> onSegment p1 p2 q1 then True
         else if o2 = 0 \<and> onSegment p1 q2 q1 then True
         else if o3 = 0 \<and> onSegment p2 p1 q2 then True
         else if o4 = 0 \<and> onSegment p2 q1 q2 then True
         else False)"

subsection \<open>ConvexHull\<close>

text \<open>
  The vector \<open>hull\<close> of the source is the list \<open>hul\<close> here (\<open>hull\<close> is an operator
  of the logic), in the vector's order: \<open>back()\<close> is \<open>last hul\<close>, \<open>pop_back\<close> is
  \<open>butlast\<close>, \<open>push_back p\<close> appends \<open>[p]\<close>. \<open>popWhile t hul p\<close> is the inner
  \<open>while\<close> loop of both scans, with \<open>t = 2\<close> in the first and \<open>t = size + 1\<close> in the
  second. The loop reads the element at \<open>size - 2\<close>, so it is only meant for \<open>t \<ge> 2\<close>;
  the model says so in the guard, which also makes the recursion terminate for every
  argument. The counter \<open>count\<close> of \<open>isInside\<close> is \<open>cnt\<close> for the same reason.
\<close>

function popWhile :: "nat \<Rightarrow> point list \<Rightarrow> point \<Rightarrow> point list" where
  "popWhile t hul p =
     (if length hul \<ge> t \<and> length hul \<ge> 2
         \<and> orientation (hul ! (length hul - 2)) (last hul) p \<noteq> 2
      then popWhile t (butlast hul) p
      else hul)"
  by pat_completeness auto
termination
  by (relation "measure (\<lambda>(t, hul, p). length hul)") auto

declare popWhile.simps [simp del]

definition scanStep :: "nat \<Rightarrow> point list \<Rightarrow> point \<Rightarrow> point list" where
  "scanStep t hul p = popWhile t hul p @ [p]"

text \<open>
  \<open>convexHull\<close> takes the vector by reference and sorts it in place: the model returns the
  caller's vector after the call together with the hull.
\<close>

definition convexHull :: "point list \<Rightarrow> point list \<times> point list" where
  "convexHull points0 =
     (let n = length points0
      in if n \<le> 2 then (points0, points0)
         else
           let points = sortPoints points0;
               hull1 = foldl (scanStep 2) [] points;
               t = length hull1 + 1;
               hull2 = foldl (scanStep t) hull1 (rev (butlast points))
           in (points, butlast hull2))"

abbreviation hullOf :: "point list \<Rightarrow> point list" where
  "hullOf ps \<equiv> snd (convexHull ps)"

subsection \<open>PointInPolygon\<close>

text \<open>
  The \<open>do ... while (i != 0)\<close> loop visits \<open>i = 0, 1, ..., n - 1\<close> once each
  (\<open>next = (i + 1) % n\<close> is \<open>0\<close> again exactly after \<open>i = n - 1\<close>), unless it returns early.
\<close>

fun isInsideLoop :: "point list \<Rightarrow> point \<Rightarrow> point \<Rightarrow> nat list \<Rightarrow> int \<Rightarrow> bool" where
  "isInsideLoop polygon p extreme [] cnt = (cnt mod 2 = 1)"
| "isInsideLoop polygon p extreme (i # is) cnt =
     (let next = (i + 1) mod length polygon
      in if doIntersect (polygon ! i) (polygon ! next) p extreme
         then if orientation (polygon ! i) p (polygon ! next) = 0
              then onSegment (polygon ! i) p (polygon ! next)
              else isInsideLoop polygon p extreme is (cnt + 1)
         else isInsideLoop polygon p extreme is cnt)"

definition isInside :: "point list \<Rightarrow> point \<Rightarrow> bool" where
  "isInside polygon p =
     (let n = length polygon
      in if n < 3 then False
         else isInsideLoop polygon p (Point T_max (py p)) [0..<n] 0)"

subsection \<open>PolygonArea\<close>

definition areaStep :: "point list \<Rightarrow> real \<Rightarrow> nat \<Rightarrow> real" where
  "areaStep polygon area i =
     (let n = length polygon;
          area1 = area + real_of_int (px (polygon ! i)) * real_of_int (py (polygon ! ((i + 1) mod n)))
      in area1 - real_of_int (px (polygon ! ((i + 1) mod n))) * real_of_int (py (polygon ! i)))"

definition polygonArea :: "point list \<Rightarrow> real" where
  "polygonArea polygon =
     (let n = length polygon
      in if n < 3 then 0
         else \<bar>foldl (areaStep polygon) 0 [0..<n]\<bar> / 2)"

subsection \<open>ClosestPair\<close>

definition distSq :: "point \<Rightarrow> point \<Rightarrow> real" where
  "distSq p1 p2 =
     real_of_int (px p1 - px p2) * real_of_int (px p1 - px p2)
   + real_of_int (py p1 - py p2) * real_of_int (py p1 - py p2)"

text \<open>\<open>std::numeric_limits<long double>::max()\<close> of the x87 extended format.\<close>

definition LDBL_MAX :: real where
  "LDBL_MAX = 2 ^ 16384 - 2 ^ 16320"

text \<open>The inner \<open>for\<close> loop of \<open>stripClosest\<close>, from index \<open>j\<close> on.\<close>

function stripInner :: "point list \<Rightarrow> nat \<Rightarrow> nat \<Rightarrow> real \<Rightarrow> real" where
  "stripInner strip i j min_d =
     (if j < length strip
         \<and> real_of_int ((py (strip ! j) - py (strip ! i)) * (py (strip ! j) - py (strip ! i))) < min_d
      then let new_dist = distSq (strip ! i) (strip ! j)
           in stripInner strip i (j + 1) (if new_dist < min_d then new_dist else min_d)
      else min_d)"
  by pat_completeness auto
termination
  by (relation "measure (\<lambda>(strip, i, j, min_d). length strip - j)") auto

declare stripInner.simps [simp del]

definition stripClosest :: "point list \<Rightarrow> real \<Rightarrow> real" where
  "stripClosest strip d =
     foldl (\<lambda>min_d i. stripInner strip i (i + 1) min_d) d [0..<length strip]"

text \<open>The brute force of the base case: all pairs \<open>i < j\<close>.\<close>

definition bruteForce :: "point list \<Rightarrow> real" where
  "bruteForce pointsX =
     (let n = length pointsX
      in foldl (\<lambda>min_d i.
           foldl (\<lambda>min_d j. min min_d (distSq (pointsX ! i) (pointsX ! j))) min_d [i + 1..<n])
         LDBL_MAX [0..<n])"

function closestPairUtil :: "point list \<Rightarrow> point list \<Rightarrow> real" where
  "closestPairUtil pointsX pointsY =
     (let n = length pointsX
      in if n \<le> 3 then bruteForce pointsX
         else
           let mid = n div 2;
               midPoint = pointsX ! mid;
               yL = filter (\<lambda>p. px p < px midPoint \<or> (px p = px midPoint \<and> py p < py midPoint)) pointsY;
               yR = filter (\<lambda>p. \<not> (px p < px midPoint \<or> (px p = px midPoint \<and> py p < py midPoint))) pointsY;
               xL = take mid pointsX;
               xR = drop mid pointsX;
               dL = closestPairUtil xL yL;
               dR = closestPairUtil xR yR;
               d = min dL dR;
               strip = filter (\<lambda>p. \<bar>real_of_int (px p) - real_of_int (px midPoint)\<bar>
                                   * \<bar>real_of_int (px p) - real_of_int (px midPoint)\<bar> < d) pointsY
           in min d (stripClosest strip d))"
  by pat_completeness auto
termination
  by (relation "measure (\<lambda>(pointsX, pointsY). length pointsX)") auto

declare closestPairUtil.simps [simp del]


definition closestPair :: "(point list \<Rightarrow> point list) \<Rightarrow> point list \<Rightarrow> point list \<times> real" where
  "closestPair ySort points =
     (if length points < 2 then (points, 0)
      else
        let pointsX = sortPoints points;
            pointsY = ySort points
        in (points, sqrt (closestPairUtil pointsX pointsY)))"

subsection \<open>PolygonDiameter\<close>

definition cross_prod :: "point list \<Rightarrow> nat \<Rightarrow> nat \<Rightarrow> real" where
  "cross_prod hul i j =
     (let n = length hul;
          p1 = hul ! i;
          p2 = hul ! ((i + 1) mod n);
          q1 = hul ! j;
          q2 = hul ! ((j + 1) mod n);
          vec_p = Point (px p2 - px p1) (py p2 - py p1);
          vec_q = Point (px q2 - px q1) (py q2 - py q1)
      in real_of_int (px vec_p) * real_of_int (py vec_q)
       - real_of_int (py vec_p) * real_of_int (px vec_q))"

text \<open>
  The \<open>while (true)\<close> loop that advances \<open>j\<close>. Nothing in its text bounds the number of
  rounds, so it is a partial function: \<open>None\<close> is a loop that never leaves.
\<close>

partial_function (option) advance :: "point list \<Rightarrow> nat \<Rightarrow> nat \<Rightarrow> nat option" where
  "advance hul i j =
     (if cross_prod hul i j > 0 then advance hul i ((j + 1) mod length hul) else Some j)"

declare advance.simps [code]

definition calipersStep :: "point list \<Rightarrow> (nat \<times> real) option \<Rightarrow> nat \<Rightarrow> (nat \<times> real) option" where
  "calipersStep hul st i =
     (case st of
        None \<Rightarrow> None
      | Some (j, max_dist_sq) \<Rightarrow>
          (case advance hul i j of
             None \<Rightarrow> None
           | Some j' \<Rightarrow>
               let n = length hul;
                   m1 = max max_dist_sq (distSq (hul ! i) (hul ! j'));
                   m2 = max m1 (distSq (hul ! ((i + 1) mod n)) (hul ! j'))
               in Some (j', m2)))"

text \<open>
  \<open>polygonDiameter\<close> passes its vector on to \<open>convexHull\<close>, which sorts it: the model
  returns the caller's vector after the call, and the distance if the call returns.
\<close>

definition polygonDiameter :: "point list \<Rightarrow> point list \<times> real option" where
  "polygonDiameter points0 =
     (if length points0 < 2 then (points0, Some 0)
      else
        let (points, hul) = convexHull points0
        in if length hul = 2 then (points, Some (sqrt (distSq (hul ! 0) (hul ! 1))))
           else if length hul < 2 then (points, Some 0)
           else
             (points,
              map_option (\<lambda>(j, max_dist_sq). sqrt max_dist_sq)
                (foldl (calipersStep hul) (Some (1, 0)) [0..<length hul])))"

subsection \<open>The machine's \<open>orientation\<close> for \<open>T = int\<close>\<close>

text \<open>
  The same function with the coordinates as 32-bit two's complement words. The source
  computes both differences of each product in \<open>T\<close> and converts afterwards:
  \<open>(long double)(q.y - p.y) * (r.x - q.x)\<close>. A difference that does not fit wraps around
  (what the usual hardware does where C++ leaves the overflow undefined). The products and
  their difference are exact in \<open>long double\<close>, whose significand has 64 bits.
\<close>

datatype point32 = Point32 (px32: "32 word") (py32: "32 word")

definition toPoint :: "point32 \<Rightarrow> point" where
  "toPoint p = Point (sint (px32 p)) (sint (py32 p))"

definition orientation_val32 :: "point32 \<Rightarrow> point32 \<Rightarrow> point32 \<Rightarrow> real" where
  "orientation_val32 p q r =
     real_of_int (sint (py32 q - py32 p)) * real_of_int (sint (px32 r - px32 q))
   - real_of_int (sint (px32 q - px32 p)) * real_of_int (sint (py32 r - py32 q))"

definition orientation32 :: "point32 \<Rightarrow> point32 \<Rightarrow> point32 \<Rightarrow> int" where
  "orientation32 p q r =
     (let val = orientation_val32 p q r
      in if \<bar>val\<bar> < EPS then 0 else if val > 0 then 1 else 2)"

text \<open>A difference of two coordinates that the type \<open>int\<close> can hold.\<close>

definition fitsT :: "int \<Rightarrow> bool" where
  "fitsT v = (- (2 ^ 31) \<le> v \<and> v < 2 ^ 31)"

section \<open>Notions used in the statements\<close>



subsection \<open>Turns and order\<close>

text \<open>
  The cross product of \<open>b - a\<close> and \<open>c - a\<close>, positive for a left turn. The value that
  \<open>orientation\<close> computes is its negative. \<open>lexle\<close> is the order of the sorted vector:
  \<open>lexle a b\<close> says that \<open>b < a\<close> does not hold.
\<close>

definition cross :: "point \<Rightarrow> point \<Rightarrow> point \<Rightarrow> int" where
  "cross a b c = (px b - px a) * (py c - py a) - (py b - py a) * (px c - px a)"

definition lexle :: "point \<Rightarrow> point \<Rightarrow> bool" where
  "lexle a b = (px a < px b \<or> (px a = px b \<and> py a \<le> py b))"

definition neg :: "point \<Rightarrow> point" where
  "neg p = Point (- px p) (- py p)"

subsection \<open>The scan on a stack\<close>








text \<open>
  The same facts for a chain in the order of the vector, ascending (\<open>up\<close>) or descending,
  with the bounding box of \<open>onSegment\<close> in place of the order.
\<close>

definition coversSeg :: "point \<Rightarrow> point \<times> point \<Rightarrow> bool" where
  "coversSeg q e = (0 < cross (fst e) (snd e) q
     \<or> (cross (fst e) (snd e) q = 0 \<and> onSegment (fst e) q (snd e)))"




subsection \<open>What a convex hull is\<close>






subsection \<open>The closest pair, by brute force\<close>



definition pairIn :: "point \<Rightarrow> point \<Rightarrow> point multiset \<Rightarrow> bool" where
  "pairIn p q M = (if p = q then 2 \<le> count M p else p \<in># M \<and> q \<in># M)"




subsection \<open>The diameter\<close>



text \<open>
  The vertices of a polygon are indexed cyclically. \<open>edge H i\<close> is the vector of the edge that
  leaves vertex \<open>i\<close>, \<open>vcr\<close> the cross product and \<open>vdot\<close> the dot product of two vectors.
  Vertex \<open>k\<close> is antipodal to edge \<open>i\<close> when the edge that enters \<open>k\<close> still turns left of
  edge \<open>i\<close> and the edge that leaves \<open>k\<close> does not: \<open>k\<close> is then a vertex farthest from the
  line of edge \<open>i\<close>. \<open>convexPos\<close> collects what the scans give for a hull of 3 or more
  vertices: they are distinct, consecutive edges turn left and no vertex is to the right
  of an edge.
\<close>

type_synonym vec = "int \<times> int"

definition vec :: "point \<Rightarrow> point \<Rightarrow> vec" where
  "vec a b = (px b - px a, py b - py a)"

definition vcr :: "vec \<Rightarrow> vec \<Rightarrow> int" where
  "vcr u v = fst u * snd v - snd u * fst v"


definition nxt :: "nat \<Rightarrow> nat \<Rightarrow> nat" where
  "nxt n i = (i + 1) mod n"

definition prv :: "nat \<Rightarrow> nat \<Rightarrow> nat" where
  "prv n i = (if i = 0 then n - 1 else i - 1)"







section \<open>Degenerate inputs, frame and area\<close>









text \<open>
  Claim C6: with fewer than 2 points \<open>closestPair\<close> and \<open>polygonDiameter\<close> return 0; with
  fewer than 3 vertices \<open>polygonArea\<close> returns 0 and \<open>isInside\<close> returns false.
\<close>

theorem degenerate: "(length ps < 2 \<longrightarrow> snd (closestPair ySort ps) = 0 \<and> snd (polygonDiameter ps) = Some 0)
  \<and> (length polygon < 3 \<longrightarrow> polygonArea polygon = 0 \<and> isInside polygon p = False)"
  by (simp add: closestPair_def polygonDiameter_def polygonArea_def isInside_def Let_def)

theorem degenerate_witness:
  "length [Point 1 1] < 2 \<and> snd (closestPair (sort_key py) [Point 1 1]) = 0
   \<and> snd (polygonDiameter [Point 1 1]) = Some 0
   \<and> length [Point 0 0, Point 1 1] < 3 \<and> polygonArea [Point 0 0, Point 1 1] = 0
   \<and> isInside [Point 0 0, Point 1 1] (Point 0 0) = False"
  using degenerate [of "[Point 1 1]" "sort_key py" "[Point 0 0, Point 1 1]" "Point 0 0"] by simp

text \<open>
  Claim C8: \<open>closestPair\<close> leaves the caller's vector as it was: the same points in the
  same order. Only the copies \<open>pointsX\<close> and \<open>pointsY\<close> are sorted.
\<close>

theorem closestPair_frame: "fst (closestPair ySort points) = points"
  by (simp add: closestPair_def Let_def)

section \<open>Termination of the calipers\<close>

text \<open>
  The cross product of an edge with itself is 0, so the loop that advances \<open>j\<close> stops at
  \<open>j = i\<close> at the latest, after fewer than \<open>n\<close> rounds.
\<close>

lemma cross_prod_self: "cross_prod hul i i = 0"
  by (simp add: cross_prod_def Let_def)

lemma advance_upto:
  assumes "i < length hul"
  shows "j \<le> i \<Longrightarrow> i - j = k \<Longrightarrow> \<exists>j'. advance hul i j = Some j' \<and> j' < length hul"
proof (induction k arbitrary: j)
  case 0
  then have "j = i" by simp
  then show ?case using assms by (subst advance.simps) (simp add: cross_prod_self)
next
  case (Suc k)
  then have lt: "j < i" by simp
  then have nxt: "Suc j mod length hul = Suc j" using assms by simp
  have "\<exists>j'. advance hul i (Suc j) = Some j' \<and> j' < length hul"
    using Suc.IH [of "Suc j"] Suc.prems lt by simp
  then show ?case using lt assms
    by (subst advance.simps) (auto simp: nxt)
qed

lemma advance_terminates:
  assumes "i < length hul"
  shows "j < length hul \<Longrightarrow> length hul - j = k \<Longrightarrow> \<exists>j'. advance hul i j = Some j' \<and> j' < length hul"
proof (induction k arbitrary: j)
  case 0
  then show ?case by simp
next
  case (Suc k)
  show ?case
  proof (cases "Suc j = length hul")
    case True
    then have nxt: "Suc j mod length hul = 0" by simp
    have "\<exists>j'. advance hul i 0 = Some j' \<and> j' < length hul"
      using advance_upto [OF assms, of 0 i] by simp
    then show ?thesis using Suc.prems
      by (subst advance.simps) (auto simp: nxt)
  next
    case False
    then have lt: "Suc j < length hul" using Suc.prems by simp
    then have nxt: "Suc j mod length hul = Suc j" by simp
    have "\<exists>j'. advance hul i (Suc j) = Some j' \<and> j' < length hul"
      using Suc.IH [of "Suc j"] Suc.prems lt by simp
    then show ?thesis using Suc.prems
      by (subst advance.simps) (auto simp: nxt)
  qed
qed

lemma calipersStep_Some:
  "advance hul i j = Some j' \<Longrightarrow> \<exists>m'. calipersStep hul (Some (j, m)) i = Some (j', m')"
  by (simp add: calipersStep_def Let_def)

lemma calipers_loop:
  "k \<le> length hul \<Longrightarrow> j < length hul \<Longrightarrow>
   \<exists>j' m'. foldl (calipersStep hul) (Some (j, m)) [0..<k] = Some (j', m') \<and> j' < length hul"
proof (induction k)
  case 0
  then show ?case by simp
next
  case (Suc k)
  then obtain j1 m1 where f: "foldl (calipersStep hul) (Some (j, m)) [0..<k] = Some (j1, m1)" and j1: "j1 < length hul"
    by auto
  from Suc.prems have "k < length hul" by simp
  then obtain j2 where "advance hul k j1 = Some j2" "j2 < length hul"
    using advance_terminates [of k hul j1] j1 by blast
  then show ?case
    using calipersStep_Some [of hul k j1 j2 m1] by (auto simp: f)
qed

text \<open>
  Claim C10: \<open>polygonDiameter\<close> returns for every input vector: on the hull that
  \<open>convexHull\<close> produces, each run of the inner loop reaches a cross product that is not
  positive after finitely many rounds.
\<close>

theorem polygonDiameter_terminates: "\<exists>d. snd (polygonDiameter points) = Some d"
proof (cases "length points < 2 \<or> length (hullOf points) \<le> 2")
  case True
  then show ?thesis
    by (auto simp: polygonDiameter_def Let_def split: prod.splits)
next
  case False
  then have "1 < length (hullOf points)" by simp
  then obtain j' m' where "foldl (calipersStep (hullOf points)) (Some (1, 0)) [0..<length (hullOf points)] = Some (j', m')"
    using calipers_loop [of "length (hullOf points)" "hullOf points" 1 0] by auto
  then show ?thesis using False
    by (auto simp: polygonDiameter_def Let_def split: prod.splits)
qed


section \<open>A ray through a vertex\<close>

text \<open>
  Claim C3 asks \<open>isInside\<close> to be true exactly for the points inside or on the boundary
  of a simple polygon. The square with corners \<open>(2,0), (4,2), (2,4), (0,2)\<close>, listed
  counter-clockwise, has the point \<open>(2,2)\<close> as its centre: it is strictly to the left of
  all four edges. The ray from \<open>(2,2)\<close> to the right passes through the corner \<open>(4,2)\<close>,
  both edges at that corner count as crossed, the count is 2 and \<open>isInside\<close> returns
  false.
\<close>

theorem isInside_ray_through_vertex:
  "isInside [Point 2 0, Point 4 2, Point 2 4, Point 0 2] (Point 2 2) = False
   \<and> orientation (Point 2 0) (Point 4 2) (Point 2 2) = 2
   \<and> orientation (Point 4 2) (Point 2 4) (Point 2 2) = 2
   \<and> orientation (Point 2 4) (Point 0 2) (Point 2 2) = 2
   \<and> orientation (Point 0 2) (Point 2 0) (Point 2 2) = 2"
  by code_simp

section \<open>Coordinate differences that overflow\<close>

lemma sint_sub_fits: "fitsT (sint a - sint b) \<Longrightarrow> sint (a - b :: 32 word) = sint a - sint b"
  by (simp add: sint_word_ariths fitsT_def signed_take_bit_int_eq_self)

text \<open>
  Where the four differences fit into \<open>T\<close>, the machine's \<open>orientation\<close> is the one of
  the first section.
\<close>

lemma orientation32_exact:
  assumes "fitsT (sint (py32 q) - sint (py32 p))" "fitsT (sint (px32 r) - sint (px32 q))"
    "fitsT (sint (px32 q) - sint (px32 p))" "fitsT (sint (py32 r) - sint (py32 q))"
  shows "orientation32 p q r = orientation (toPoint p) (toPoint q) (toPoint r)"
  using assms
  by (simp add: orientation32_def orientation_def orientation_val32_def orientation_val_def
      toPoint_def sint_sub_fits)

text \<open>
  Claim C7 says that \<open>orientation\<close> computes its cross product without overflow, exactly
  for all representable coordinates of an integer \<open>T\<close>. For the query point \<open>(-1, 0)\<close>,
  \<open>isInside\<close> calls \<open>orientation\<close> with \<open>p = (-1, 0)\<close>, \<open>q = (2147483647, 0)\<close> (the far
  end of its ray) and a vertex, here \<open>r = (0, 1)\<close>. The difference \<open>q.x - p.x\<close> is taken in
  \<open>int\<close>, before the conversion, and does not fit: the result is 1 (clockwise) where the
  exact cross product gives 2 (counter-clockwise).
\<close>

theorem orientation32_overflow:
  "orientation32 (Point32 (-1) 0) (Point32 2147483647 0) (Point32 0 1) = 1
   \<and> orientation (toPoint (Point32 (-1) 0)) (toPoint (Point32 2147483647 0)) (toPoint (Point32 0 1)) = 2"
  by (simp add: orientation32_def orientation_val32_def orientation_def orientation_val_def
      EPS_def toPoint_def)

section \<open>The cross product and the order of the points\<close>




lemma lexle_refl [simp]: "lexle a a" by (simp add: lexle_def)

lemma cross_same [simp]: "cross a a c = 0" "cross a b a = 0" "cross a b b = 0"
  by (simp_all add: cross_def)
lemma cross_swap: "cross a c b = - cross a b c" by (simp add: cross_def algebra_simps)







section \<open>A scan keeps a convex chain\<close>




















lemma neg_neg [simp]: "neg (neg p) = p" by (simp add: neg_def)
lemma neg_inj [simp]: "neg a = neg b \<longleftrightarrow> a = b"
  by (metis neg_neg)
lemma cross_neg [simp]: "cross (neg a) (neg b) (neg c) = cross a b c"
  by (simp add: cross_def neg_def algebra_simps)
lemma lexle_neg [simp]: "lexle (neg a) (neg b) = lexle b a"
  by (auto simp: lexle_def neg_def)
lemma point_less_neg [simp]: "point_less (neg a) (neg b) = point_less b a"
  by (auto simp: point_less_def neg_def)
lemma onSegment_neg [simp]: "onSegment (neg a) (neg q) (neg b) = onSegment a q b"
  by (auto simp: onSegment_def neg_def)
lemma coversSeg_neg [simp]: "coversSeg (neg q) (neg a, neg b) = coversSeg q (a, b)"
  by (simp add: coversSeg_def)









section \<open>The scans of \<open>convexHull\<close>\<close>

lemma orientation_val_cross: "orientation_val p q r = - real_of_int (cross p q r)"
  by (simp add: orientation_val_def cross_def algebra_simps)

lemma small_int: "\<bar>real_of_int c\<bar> < EPS \<longleftrightarrow> c = 0"
proof
  assume a: "\<bar>real_of_int c\<bar> < EPS"
  have "EPS < 1" by (simp add: EPS_def)
  then have "\<bar>real_of_int c\<bar> < 1" using a by linarith
  then show "c = 0" by linarith
qed (simp add: EPS_def)

lemma orientation_cross:
  "orientation p q r = (if cross p q r = 0 then 0 else if cross p q r < 0 then 1 else 2)"
  by (simp add: orientation_def Let_def orientation_val_cross small_int)

lemma orientation_2 [simp]: "orientation p q r = 2 \<longleftrightarrow> 0 < cross p q r"
  by (simp add: orientation_cross)
lemma orientation_0 [simp]: "orientation p q r = 0 \<longleftrightarrow> cross p q r = 0"
  by (simp add: orientation_cross)
lemma orientation_1 [simp]: "orientation p q r = 1 \<longleftrightarrow> cross p q r < 0"
  by (simp add: orientation_cross)










lemma sortPoints_set [simp]: "set (sortPoints ps) = set ps"
  by (simp add: sortPoints_def)

lemma sortPoints_length [simp]: "length (sortPoints ps) = length ps"
  by (simp add: sortPoints_def)

section \<open>The hull is the lower chain followed by the upper chain\<close>







lemma point_less_irrefl [simp]: "\<not> point_less a a"
  by (simp add: point_less_def)















section \<open>The convex hull\<close>








section \<open>The closest pair\<close>

text \<open>
  A call of \<open>closestPairUtil\<close> whose \<open>pointsY\<close> holds the points of \<open>pointsX\<close> returns
  the least squared distance of two of them. Where the split leaves a copy of the middle point
  on the left, the partition of \<open>pointsY\<close> differs from the one of \<open>pointsX\<close>; the
  result is 0 then, found in the strip of this call, whatever the two recursive calls return.
\<close>

lemma distSq_nonneg [simp]: "0 \<le> distSq p q"
  by (simp add: distSq_def)



lemma pairIn_commute: "pairIn p q M = pairIn q p M"
  by (auto simp: pairIn_def)





































lemma sortPoints_mset [simp]: "mset (sortPoints ps) = mset ps"
  by (simp add: sortPoints_def)




section \<open>The rotating calipers\<close>

subsection \<open>Vectors and cyclic indices\<close>



lemma vcr_self [simp]: "vcr u u = 0" by (simp add: vcr_def)

lemma prv_less [simp]: "i < n \<Longrightarrow> prv n i < n" by (auto simp: prv_def)
lemma nxt_prv [simp]: "i < n \<Longrightarrow> nxt n (prv n i) = i"
  by (cases "i = 0") (auto simp: nxt_def prv_def)
lemma prv_nxt [simp]: "i < n \<Longrightarrow> prv n (nxt n i) = i"
  by (cases "Suc i = n") (auto simp: nxt_def prv_def)









subsection \<open>No three vertices on a line, and one antipodal vertex for an edge\<close>








subsection \<open>A pair at the largest distance is antipodal\<close>












subsection \<open>The loops of polygonDiameter\<close>




















subsection \<open>The largest distance of the input is taken on the hull\<close>













subsection \<open>The diameter\<close>





end
